theory Spec2Isabelle
  imports Main "HOL-Library.Word"
begin

section \<open>Data of the IBC relay handlers (x/wasm/internal/keeper/relay.go)\<close>

text \<open>
  Byte strings are lists of octets. A Go slice can also be \<open>nil\<close>, which the caller of
  \<open>OnRecvPacket\<close> can tell apart from an empty, non-nil slice: a slice that may be
  \<open>nil\<close> is an option, \<open>None\<close> being \<open>nil\<close>.
\<close>

type_synonym bytes = "8 word list"
type_synonym byte_slice = "bytes option"
type_synonym acc_address = bytes

text \<open>
  Errors. \<open>ErrExecuteFailed\<close> is the registered error of package types; any other error
  value is identified by its message. \<open>Wrapped parent description\<close> is what
  \<open>sdkerrors.Wrap\<close> builds from a non-nil parent. The error of the VM is observed by the
  handlers only through being \<open>nil\<close> or not and through \<open>execErr.Error()\<close>: it is
  modelled as an optional message.
\<close>

datatype error = ErrExecuteFailed | ErrOther string | Wrapped error string

definition Wrap :: "error \<Rightarrow> string \<Rightarrow> error" where
  "Wrap err description = Wrapped err description"

text \<open>
  The context gives access to the gas meter (the ambient ledger) and to the event manager
  (the event log). Gas amounts are \<open>uint64\<close> in Go; relay.go does no arithmetic on
  them, and they are natural numbers here, the non-negative integers of the spec's data
  model.
\<close>

record gas_meter =
  gas_limit :: nat
  gas_consumed :: nat

record event =
  event_type :: string
  event_attributes :: "(string \<times> string) list"

record sdk_context =
  GasMeter :: gas_meter
  EventManager :: "event list"

record contract_info =
  IBCPortID :: string

record code_info =
  CodeHash :: bytes

record 'pl query_handler =
  Ctx :: sdk_context
  Plugins :: 'pl

text \<open>
  The replies of the VM: \<open>IBCBasicResponse\<close> carries messages and attributes,
  \<open>IBCReceiveResponse\<close> carries the acknowledgement as well. The handlers receive them
  through a pointer, which may be \<open>nil\<close>.
\<close>

record 'msg ibc_basic_response =
  Messages :: "'msg list"
  Attributes :: "(string \<times> string) list"

record 'msg ibc_receive_response = "'msg ibc_basic_response" +
  Acknowledgement :: byte_slice

section \<open>The collaborators of the handlers\<close>

text \<open>
  The channel, packet and acknowledgement descriptors (\<open>'ch\<close>, \<open>'pk\<close>, \<open>'ak\<close>), the
  follow-up messages (\<open>'msg\<close>), the prefix store (\<open>'st\<close>), the environment (\<open>'env\<close>),
  the query plugins (\<open>'pl\<close>) and the host-function table (\<open>'api\<close>) are opaque to the
  handlers, which only pass them on: they are type parameters.

  Every entry point of the VM takes the code hash, the environment, the payload, the
  store, the host functions, the querier, the gas meter and the gas limit, in this order.

  A collaborator is a function of the arguments it is called with, and what it returns is
  all that the handlers use of it. What the VM or the message handler may do on their own
  to the gas meter or to the event log is not the handlers' doing: the context that a
  handler returns holds what the handler itself charged and emitted.
\<close>

type_synonym ('p, 'st, 'env, 'pl, 'api, 'r) entry_point_fn =
  "bytes \<Rightarrow> 'env \<Rightarrow> 'p \<Rightarrow> 'st \<Rightarrow> 'api \<Rightarrow> 'pl query_handler \<Rightarrow> gas_meter \<Rightarrow> nat \<Rightarrow> 'r"

record ('ch, 'pk, 'ak, 'msg, 'st, 'env, 'pl, 'api) wasmer_engine =
  IBCChannelOpen ::
    "('ch, 'st, 'env, 'pl, 'api, nat \<times> string option) entry_point_fn"
  IBCChannelConnect ::
    "('ch, 'st, 'env, 'pl, 'api,
      'msg ibc_basic_response option \<times> nat \<times> string option) entry_point_fn"
  IBCChannelClose ::
    "('ch, 'st, 'env, 'pl, 'api,
      'msg ibc_basic_response option \<times> nat \<times> string option) entry_point_fn"
  IBCPacketReceive ::
    "('pk, 'st, 'env, 'pl, 'api,
      'msg ibc_receive_response option \<times> nat \<times> string option) entry_point_fn"
  IBCPacketAck ::
    "('ak, 'st, 'env, 'pl, 'api,
      'msg ibc_basic_response option \<times> nat \<times> string option) entry_point_fn"
  IBCPacketTimeout ::
    "('pk, 'st, 'env, 'pl, 'api,
      'msg ibc_basic_response option \<times> nat \<times> string option) entry_point_fn"

record 'msg message_handler =
  Dispatch :: "sdk_context \<Rightarrow> acc_address \<Rightarrow> string \<Rightarrow> 'msg list \<Rightarrow> error option"

text \<open>
  The keeper: the fields and the method \<open>contractInstance\<close> that relay.go uses. The
  method returns the contract's metadata, its code info and its prefix store, or an error.
\<close>

record ('ch, 'pk, 'ak, 'msg, 'st, 'env, 'pl, 'api) keeper =
  contractInstance ::
    "sdk_context \<Rightarrow> acc_address \<Rightarrow> error + (contract_info \<times> code_info \<times> 'st)"
  wasmer :: "('ch, 'pk, 'ak, 'msg, 'st, 'env, 'pl, 'api) wasmer_engine"
  queryPlugins :: 'pl
  messenger :: "'msg message_handler"

text \<open>
  The declarations of other files of the module that relay.go calls without a receiver:
  \<open>types.NewEnv\<close>, \<open>gasForContract\<close>, \<open>types.ParseEvents\<close> and \<open>cosmwasmAPI\<close>.
  They are parameters of the handlers.
\<close>

record ('env, 'api) wasm_package =
  NewEnv :: "sdk_context \<Rightarrow> acc_address \<Rightarrow> 'env"
  gasForContract :: "sdk_context \<Rightarrow> nat"
  ParseEvents :: "(string \<times> string) list \<Rightarrow> acc_address \<Rightarrow> event list"
  cosmwasmAPI :: 'api

text \<open>
  Modelled from the spec: \<open>consumeGas\<close> is declared in another file of the keeper
  package. The spec gives it as \<open>GasMeter.Consume(context, GasUsed)\<close>, which "records
  gas actually consumed against the ambient ledger": the consumed-gas counter of the
  context's meter grows by the amount.
\<close>

definition consumeGas :: "sdk_context \<Rightarrow> nat \<Rightarrow> sdk_context" where
  "consumeGas ctx gas =
     ctx\<lparr>GasMeter := (GasMeter ctx)\<lparr>gas_consumed := gas_consumed (GasMeter ctx) + gas\<rparr>\<rparr>"

text \<open>
  Modelled from the spec: \<open>EmitEvents\<close> is a method of the SDK's event manager. The spec
  has the handlers "surface any emitted domain events to the chain's event log": the
  events are appended to the log, in order.
\<close>

definition EmitEvents :: "sdk_context \<Rightarrow> event list \<Rightarrow> sdk_context" where
  "EmitEvents ctx events = ctx\<lparr>EventManager := EventManager ctx @ events\<rparr>"

section \<open>What a handler does, as a log of its calls\<close>

text \<open>
  A handler returns, next to the context it leaves behind and its return value, the list
  of the calls it made on its collaborators, in the order it made them, each with what the
  collaborator answered. A call of a VM entry point is logged with the entry point, the
  code hash and the gas limit it was given, and its reply.
\<close>

datatype entry_point =
  EntryChannelOpen | EntryChannelConnect | EntryChannelClose
  | EntryPacketReceive | EntryPacketAck | EntryPacketTimeout

datatype 'msg vm_reply =
  OpenReply nat "string option"
  | BasicReply "'msg ibc_basic_response option" nat "string option"
  | ReceiveReply "'msg ibc_receive_response option" nat "string option"

datatype 'msg call =
  CallContractInstance acc_address
  | CallVM entry_point bytes nat "'msg vm_reply"
  | CallConsumeGas nat
  | CallEmitEvents "event list"
  | CallDispatch acc_address string "'msg list" "error option"

text \<open>
  A handler returns normally or panics: dereferencing a \<open>nil\<close> response that came
  without an error is a panic of the Go runtime.
\<close>

datatype 'a outcome = Return 'a | Panic

section \<open>The six handlers\<close>

text \<open>
  Each definition follows its Go function line by line. The context is passed along and
  returned; \<open>tr\<close> is the log of the calls made so far. \<open>OnOpenChannel\<close> gets only
  the gas used and an error from the VM; the other entry points also return a response.
\<close>

definition OnOpenChannel ::
  "('env, 'api) wasm_package \<Rightarrow> ('ch, 'pk, 'ak, 'msg, 'st, 'env, 'pl, 'api) keeper \<Rightarrow>
   sdk_context \<Rightarrow> acc_address \<Rightarrow> 'ch \<Rightarrow> sdk_context \<times> 'msg call list \<times> error option outcome" where
  "OnOpenChannel p k ctx contractAddr channel =
     (let tr = [CallContractInstance contractAddr] in
      case contractInstance k ctx contractAddr of
        Inl err \<Rightarrow> (ctx, tr, Return (Some err))
      | Inr (_, codeInfo, prefixStore) \<Rightarrow>
          (let env = NewEnv p ctx contractAddr;
               querier = \<lparr>Ctx = ctx, Plugins = queryPlugins k\<rparr>;
               gas = gasForContract p ctx;
               (gasUsed, execErr) =
                  IBCChannelOpen (wasmer k) (CodeHash codeInfo) env channel prefixStore
                    (cosmwasmAPI p) querier (GasMeter ctx) gas;
               tr = tr @ [CallVM EntryChannelOpen (CodeHash codeInfo) gas
                            (OpenReply gasUsed execErr)];
               ctx = consumeGas ctx gasUsed;
               tr = tr @ [CallConsumeGas gasUsed]
           in (case execErr of
                 Some e \<Rightarrow> (ctx, tr, Return (Some (Wrap ErrExecuteFailed e)))
               | None \<Rightarrow> (ctx, tr, Return None))))"

definition OnConnectChannel ::
  "('env, 'api) wasm_package \<Rightarrow> ('ch, 'pk, 'ak, 'msg, 'st, 'env, 'pl, 'api) keeper \<Rightarrow>
   sdk_context \<Rightarrow> acc_address \<Rightarrow> 'ch \<Rightarrow> sdk_context \<times> 'msg call list \<times> error option outcome" where
  "OnConnectChannel p k ctx contractAddr channel =
     (let tr = [CallContractInstance contractAddr] in
      case contractInstance k ctx contractAddr of
        Inl err \<Rightarrow> (ctx, tr, Return (Some err))
      | Inr (contractInfo, codeInfo, prefixStore) \<Rightarrow>
          (let env = NewEnv p ctx contractAddr;
               querier = \<lparr>Ctx = ctx, Plugins = queryPlugins k\<rparr>;
               gas = gasForContract p ctx;
               (res, gasUsed, execErr) =
                  IBCChannelConnect (wasmer k) (CodeHash codeInfo) env channel prefixStore
                    (cosmwasmAPI p) querier (GasMeter ctx) gas;
               tr = tr @ [CallVM EntryChannelConnect (CodeHash codeInfo) gas
                            (BasicReply res gasUsed execErr)];
               ctx = consumeGas ctx gasUsed;
               tr = tr @ [CallConsumeGas gasUsed]
           in (case execErr of
                 Some e \<Rightarrow> (ctx, tr, Return (Some (Wrap ErrExecuteFailed e)))
               | None \<Rightarrow>
                   (case res of
                      None \<Rightarrow> (ctx, tr, Panic)
                    | Some res \<Rightarrow>
                        (let events = ParseEvents p (Attributes res) contractAddr;
                             ctx = EmitEvents ctx events;
                             tr = tr @ [CallEmitEvents events];
                             err = Dispatch (messenger k) ctx contractAddr
                                     (IBCPortID contractInfo) (Messages res);
                             tr = tr @ [CallDispatch contractAddr (IBCPortID contractInfo)
                                          (Messages res) err]
                         in (case err of
                               Some err \<Rightarrow> (ctx, tr, Return (Some err))
                             | None \<Rightarrow> (ctx, tr, Return None)))))))"

definition OnCloseChannel ::
  "('env, 'api) wasm_package \<Rightarrow> ('ch, 'pk, 'ak, 'msg, 'st, 'env, 'pl, 'api) keeper \<Rightarrow>
   sdk_context \<Rightarrow> acc_address \<Rightarrow> 'ch \<Rightarrow> sdk_context \<times> 'msg call list \<times> error option outcome" where
  "OnCloseChannel p k ctx contractAddr channel =
     (let tr = [CallContractInstance contractAddr] in
      case contractInstance k ctx contractAddr of
        Inl err \<Rightarrow> (ctx, tr, Return (Some err))
      | Inr (contractInfo, codeInfo, prefixStore) \<Rightarrow>
          (let params = NewEnv p ctx contractAddr;
               querier = \<lparr>Ctx = ctx, Plugins = queryPlugins k\<rparr>;
               gas = gasForContract p ctx;
               (res, gasUsed, execErr) =
                  IBCChannelClose (wasmer k) (CodeHash codeInfo) params channel prefixStore
                    (cosmwasmAPI p) querier (GasMeter ctx) gas;
               tr = tr @ [CallVM EntryChannelClose (CodeHash codeInfo) gas
                            (BasicReply res gasUsed execErr)];
               ctx = consumeGas ctx gasUsed;
               tr = tr @ [CallConsumeGas gasUsed]
           in (case execErr of
                 Some e \<Rightarrow> (ctx, tr, Return (Some (Wrap ErrExecuteFailed e)))
               | None \<Rightarrow>
                   (case res of
                      None \<Rightarrow> (ctx, tr, Panic)
                    | Some res \<Rightarrow>
                        (let events = ParseEvents p (Attributes res) contractAddr;
                             ctx = EmitEvents ctx events;
                             tr = tr @ [CallEmitEvents events];
                             err = Dispatch (messenger k) ctx contractAddr
                                     (IBCPortID contractInfo) (Messages res);
                             tr = tr @ [CallDispatch contractAddr (IBCPortID contractInfo)
                                          (Messages res) err]
                         in (case err of
                               Some err \<Rightarrow> (ctx, tr, Return (Some err))
                             | None \<Rightarrow> (ctx, tr, Return None)))))))"

definition OnRecvPacket ::
  "('env, 'api) wasm_package \<Rightarrow> ('ch, 'pk, 'ak, 'msg, 'st, 'env, 'pl, 'api) keeper \<Rightarrow>
   sdk_context \<Rightarrow> acc_address \<Rightarrow> 'pk \<Rightarrow> sdk_context \<times> 'msg call list \<times> (byte_slice \<times> error option) outcome" where
  "OnRecvPacket p k ctx contractAddr packet =
     (let tr = [CallContractInstance contractAddr] in
      case contractInstance k ctx contractAddr of
        Inl err \<Rightarrow> (ctx, tr, Return (None, Some err))
      | Inr (contractInfo, codeInfo, prefixStore) \<Rightarrow>
          (let env = NewEnv p ctx contractAddr;
               querier = \<lparr>Ctx = ctx, Plugins = queryPlugins k\<rparr>;
               gas = gasForContract p ctx;
               (res, gasUsed, execErr) =
                  IBCPacketReceive (wasmer k) (CodeHash codeInfo) env packet prefixStore
                    (cosmwasmAPI p) querier (GasMeter ctx) gas;
               tr = tr @ [CallVM EntryPacketReceive (CodeHash codeInfo) gas
                            (ReceiveReply res gasUsed execErr)];
               ctx = consumeGas ctx gasUsed;
               tr = tr @ [CallConsumeGas gasUsed]
           in (case execErr of
                 Some e \<Rightarrow> (ctx, tr, Return (None, Some (Wrap ErrExecuteFailed e)))
               | None \<Rightarrow>
                   (case res of
                      None \<Rightarrow> (ctx, tr, Panic)
                    | Some res \<Rightarrow>
                        (let events = ParseEvents p (Attributes res) contractAddr;
                             ctx = EmitEvents ctx events;
                             tr = tr @ [CallEmitEvents events];
                             err = Dispatch (messenger k) ctx contractAddr
                                     (IBCPortID contractInfo) (Messages res);
                             tr = tr @ [CallDispatch contractAddr (IBCPortID contractInfo)
                                          (Messages res) err]
                         in (case err of
                               Some err \<Rightarrow> (ctx, tr, Return (None, Some err))
                             | None \<Rightarrow> (ctx, tr, Return (Acknowledgement res, None))))))))"

definition OnAckPacket ::
  "('env, 'api) wasm_package \<Rightarrow> ('ch, 'pk, 'ak, 'msg, 'st, 'env, 'pl, 'api) keeper \<Rightarrow>
   sdk_context \<Rightarrow> acc_address \<Rightarrow> 'ak \<Rightarrow> sdk_context \<times> 'msg call list \<times> error option outcome" where
  "OnAckPacket p k ctx contractAddr acknowledgement =
     (let tr = [CallContractInstance contractAddr] in
      case contractInstance k ctx contractAddr of
        Inl err \<Rightarrow> (ctx, tr, Return (Some err))
      | Inr (contractInfo, codeInfo, prefixStore) \<Rightarrow>
          (let env = NewEnv p ctx contractAddr;
               querier = \<lparr>Ctx = ctx, Plugins = queryPlugins k\<rparr>;
               gas = gasForContract p ctx;
               (res, gasUsed, execErr) =
                  IBCPacketAck (wasmer k) (CodeHash codeInfo) env acknowledgement prefixStore
                    (cosmwasmAPI p) querier (GasMeter ctx) gas;
               tr = tr @ [CallVM EntryPacketAck (CodeHash codeInfo) gas
                            (BasicReply res gasUsed execErr)];
               ctx = consumeGas ctx gasUsed;
               tr = tr @ [CallConsumeGas gasUsed]
           in (case execErr of
                 Some e \<Rightarrow> (ctx, tr, Return (Some (Wrap ErrExecuteFailed e)))
               | None \<Rightarrow>
                   (case res of
                      None \<Rightarrow> (ctx, tr, Panic)
                    | Some res \<Rightarrow>
                        (let events = ParseEvents p (Attributes res) contractAddr;
                             ctx = EmitEvents ctx events;
                             tr = tr @ [CallEmitEvents events];
                             err = Dispatch (messenger k) ctx contractAddr
                                     (IBCPortID contractInfo) (Messages res);
                             tr = tr @ [CallDispatch contractAddr (IBCPortID contractInfo)
                                          (Messages res) err]
                         in (case err of
                               Some err \<Rightarrow> (ctx, tr, Return (Some err))
                             | None \<Rightarrow> (ctx, tr, Return None)))))))"

definition OnTimeoutPacket ::
  "('env, 'api) wasm_package \<Rightarrow> ('ch, 'pk, 'ak, 'msg, 'st, 'env, 'pl, 'api) keeper \<Rightarrow>
   sdk_context \<Rightarrow> acc_address \<Rightarrow> 'pk \<Rightarrow> sdk_context \<times> 'msg call list \<times> error option outcome" where
  "OnTimeoutPacket p k ctx contractAddr packet =
     (let tr = [CallContractInstance contractAddr] in
      case contractInstance k ctx contractAddr of
        Inl err \<Rightarrow> (ctx, tr, Return (Some err))
      | Inr (contractInfo, codeInfo, prefixStore) \<Rightarrow>
          (let env = NewEnv p ctx contractAddr;
               querier = \<lparr>Ctx = ctx, Plugins = queryPlugins k\<rparr>;
               gas = gasForContract p ctx;
               (res, gasUsed, execErr) =
                  IBCPacketTimeout (wasmer k) (CodeHash codeInfo) env packet prefixStore
                    (cosmwasmAPI p) querier (GasMeter ctx) gas;
               tr = tr @ [CallVM EntryPacketTimeout (CodeHash codeInfo) gas
                            (BasicReply res gasUsed execErr)];
               ctx = consumeGas ctx gasUsed;
               tr = tr @ [CallConsumeGas gasUsed]
           in (case execErr of
                 Some e \<Rightarrow> (ctx, tr, Return (Some (Wrap ErrExecuteFailed e)))
               | None \<Rightarrow>
                   (case res of
                      None \<Rightarrow> (ctx, tr, Panic)
                    | Some res \<Rightarrow>
                        (let events = ParseEvents p (Attributes res) contractAddr;
                             ctx = EmitEvents ctx events;
                             tr = tr @ [CallEmitEvents events];
                             err = Dispatch (messenger k) ctx contractAddr
                                     (IBCPortID contractInfo) (Messages res);
                             tr = tr @ [CallDispatch contractAddr (IBCPortID contractInfo)
                                          (Messages res) err]
                         in (case err of
                               Some err \<Rightarrow> (ctx, tr, Return (Some err))
                             | None \<Rightarrow> (ctx, tr, Return None)))))))"

section \<open>The handlers as one function of the lifecycle event\<close>

text \<open>
  A lifecycle event with its payload selects the handler. \<open>handle\<close> calls the handler
  of the event and keeps, of what \<open>OnRecvPacket\<close> returns, the error; the
  acknowledgement bytes are studied on \<open>OnRecvPacket\<close> itself.
\<close>

datatype ('ch, 'pk, 'ak) lifecycle_event =
  ChannelOpen 'ch | ChannelConnect 'ch | ChannelClose 'ch
  | PacketReceive 'pk | PacketAck 'ak | PacketTimeout 'pk

definition handle ::
  "('env, 'api) wasm_package \<Rightarrow> ('ch, 'pk, 'ak, 'msg, 'st, 'env, 'pl, 'api) keeper \<Rightarrow>
   sdk_context \<Rightarrow> acc_address \<Rightarrow> ('ch, 'pk, 'ak) lifecycle_event \<Rightarrow>
   sdk_context \<times> 'msg call list \<times> error option outcome" where
  "handle p k ctx contractAddr ev =
     (case ev of
        ChannelOpen channel \<Rightarrow> OnOpenChannel p k ctx contractAddr channel
      | ChannelConnect channel \<Rightarrow> OnConnectChannel p k ctx contractAddr channel
      | ChannelClose channel \<Rightarrow> OnCloseChannel p k ctx contractAddr channel
      | PacketReceive packet \<Rightarrow>
          (case OnRecvPacket p k ctx contractAddr packet of
             (ctx', tr, r) \<Rightarrow> (ctx', tr, map_outcome snd r))
      | PacketAck acknowledgement \<Rightarrow> OnAckPacket p k ctx contractAddr acknowledgement
      | PacketTimeout packet \<Rightarrow> OnTimeoutPacket p k ctx contractAddr packet)"

text \<open>The entry-point table of the spec (section 4.2): the VM entry point of each event.\<close>

fun spec_entry_point :: "('ch, 'pk, 'ak) lifecycle_event \<Rightarrow> entry_point" where
  "spec_entry_point (ChannelOpen _) = EntryChannelOpen"
| "spec_entry_point (ChannelConnect _) = EntryChannelConnect"
| "spec_entry_point (ChannelClose _) = EntryChannelClose"
| "spec_entry_point (PacketReceive _) = EntryPacketReceive"
| "spec_entry_point (PacketAck _) = EntryPacketAck"
| "spec_entry_point (PacketTimeout _) = EntryPacketTimeout"

text \<open>
  What a logged reply of the VM holds: the gas used, the error, and the response (of a
  receive response, the messages and attributes).
\<close>

fun reply_gasUsed :: "'msg vm_reply \<Rightarrow> nat" where
  "reply_gasUsed (OpenReply gasUsed execErr) = gasUsed"
| "reply_gasUsed (BasicReply res gasUsed execErr) = gasUsed"
| "reply_gasUsed (ReceiveReply res gasUsed execErr) = gasUsed"

fun reply_execErr :: "'msg vm_reply \<Rightarrow> string option" where
  "reply_execErr (OpenReply gasUsed execErr) = execErr"
| "reply_execErr (BasicReply res gasUsed execErr) = execErr"
| "reply_execErr (ReceiveReply res gasUsed execErr) = execErr"

fun reply_response :: "'msg vm_reply \<Rightarrow> 'msg ibc_basic_response option" where
  "reply_response (OpenReply gasUsed execErr) = None"
| "reply_response (BasicReply res gasUsed execErr) = res"
| "reply_response (ReceiveReply res gasUsed execErr) =
     map_option (\<lambda>r. \<lparr>Messages = Messages r, Attributes = Attributes r\<rparr>) res"

fun is_resolution :: "'msg call \<Rightarrow> bool" where
  "is_resolution (CallContractInstance _) = True"
| "is_resolution _ = False"

fun is_vm_call :: "'msg call \<Rightarrow> bool" where
  "is_vm_call (CallVM _ _ _ _) = True"
| "is_vm_call _ = False"

fun is_emit :: "'msg call \<Rightarrow> bool" where
  "is_emit (CallEmitEvents _) = True"
| "is_emit _ = False"

fun is_dispatch :: "'msg call \<Rightarrow> bool" where
  "is_dispatch (CallDispatch _ _ _ _) = True"
| "is_dispatch _ = False"

text \<open>
  The VM call of a lifecycle event as the spec gives it (section 4.1, step 3, with the
  table of section 4.2 and the signature \<open>VM.Invoke\<close> of section 6): the entry point
  of the event, applied to the code hash of the resolved contract, the environment built
  for the contract address, the payload of the event, the store of the contract, the host
  functions, the querier, the gas meter of the context and, as gas limit, the budget
  computed on the context. Its value is what the entry point returns.
\<close>

definition spec_invoke ::
  "('env, 'api) wasm_package \<Rightarrow> ('ch, 'pk, 'ak, 'msg, 'st, 'env, 'pl, 'api) keeper \<Rightarrow>
   sdk_context \<Rightarrow> acc_address \<Rightarrow> ('ch, 'pk, 'ak) lifecycle_event \<Rightarrow>
   code_info \<Rightarrow> 'st \<Rightarrow> 'msg vm_reply" where
  "spec_invoke p k ctx contractAddr ev codeInfo prefixStore =
     (let codeHash = CodeHash codeInfo;
          env = NewEnv p ctx contractAddr;
          api = cosmwasmAPI p;
          querier = \<lparr>Ctx = ctx, Plugins = queryPlugins k\<rparr>;
          meter = GasMeter ctx;
          budget = gasForContract p ctx
      in case ev of
           ChannelOpen channel \<Rightarrow>
             (case IBCChannelOpen (wasmer k) codeHash env channel prefixStore api querier
                     meter budget of
                (gasUsed, execErr) \<Rightarrow> OpenReply gasUsed execErr)
         | ChannelConnect channel \<Rightarrow>
             (case IBCChannelConnect (wasmer k) codeHash env channel prefixStore api querier
                     meter budget of
                (res, gasUsed, execErr) \<Rightarrow> BasicReply res gasUsed execErr)
         | ChannelClose channel \<Rightarrow>
             (case IBCChannelClose (wasmer k) codeHash env channel prefixStore api querier
                     meter budget of
                (res, gasUsed, execErr) \<Rightarrow> BasicReply res gasUsed execErr)
         | PacketReceive packet \<Rightarrow>
             (case IBCPacketReceive (wasmer k) codeHash env packet prefixStore api querier
                     meter budget of
                (res, gasUsed, execErr) \<Rightarrow> ReceiveReply res gasUsed execErr)
         | PacketAck acknowledgement \<Rightarrow>
             (case IBCPacketAck (wasmer k) codeHash env acknowledgement prefixStore api
                     querier meter budget of
                (res, gasUsed, execErr) \<Rightarrow> BasicReply res gasUsed execErr)
         | PacketTimeout packet \<Rightarrow>
             (case IBCPacketTimeout (wasmer k) codeHash env packet prefixStore api querier
                     meter budget of
                (res, gasUsed, execErr) \<Rightarrow> BasicReply res gasUsed execErr))"

section \<open>A concrete keeper\<close>

text \<open>
  Two contracts are deployed, at the addresses \<open>[0x43]\<close> and \<open>[0x44]\<close>, with the
  ports \<open>wasm.C\<close> and \<open>wasm.D\<close> and the same code hash \<open>[0x48]\<close>; no other address
  resolves. Payloads and messages are numbers. The VM traps with "out of gas" on the
  payload 0 and otherwise answers with one attribute and the payload as its only
  message; the receive entry point acknowledges with the byte 1. On the payload 99 the
  entry points with a basic response report 200 units of gas, whatever limit they were
  given. The message handler rejects the message 13. The budget is what the meter has
  left.
\<close>

definition example_package :: "(acc_address, unit) wasm_package" where
  "example_package =
     \<lparr>NewEnv = (\<lambda>ctx contractAddr. contractAddr),
      gasForContract = (\<lambda>ctx. gas_limit (GasMeter ctx) - gas_consumed (GasMeter ctx)),
      ParseEvents = (\<lambda>attrs contractAddr.
         [\<lparr>event_type = ''wasm'',
           event_attributes =
             (''contract'', if contractAddr = [0x43] then ''C'' else ''D'') # attrs\<rparr>]),
      cosmwasmAPI = ()\<rparr>"

definition example_basic ::
  "(nat, unit, acc_address, unit, unit,
    nat ibc_basic_response option \<times> nat \<times> string option) entry_point_fn" where
  "example_basic codeHash env payload store api querier meter gas =
     (if payload = 0 then (None, 40, Some ''out of gas'')
      else if payload = 99
      then (Some \<lparr>Messages = [payload], Attributes = [(''action'', ''done'')]\<rparr>, 200, None)
      else (Some \<lparr>Messages = [payload], Attributes = [(''action'', ''done'')]\<rparr>, 30, None))"

definition example_wasmer ::
  "(nat, nat, nat, nat, unit, acc_address, unit, unit) wasmer_engine" where
  "example_wasmer =
     \<lparr>IBCChannelOpen = (\<lambda>codeHash env channel store api querier meter gas.
         if channel = 0 then (40, Some ''out of gas'') else (30, None)),
      IBCChannelConnect = example_basic,
      IBCChannelClose = example_basic,
      IBCPacketReceive = (\<lambda>codeHash env packet store api querier meter gas.
         if packet = 0 then (None, 40, Some ''out of gas'')
         else (Some \<lparr>Messages = [packet], Attributes = [(''action'', ''receive'')],
                      Acknowledgement = Some [1]\<rparr>, 30, None)),
      IBCPacketAck = example_basic,
      IBCPacketTimeout = example_basic\<rparr>"

definition example_keeper ::
  "(nat, nat, nat, nat, unit, acc_address, unit, unit) keeper" where
  "example_keeper =
     \<lparr>contractInstance = (\<lambda>ctx contractAddr.
         if contractAddr = [0x43]
         then Inr (\<lparr>IBCPortID = ''wasm.C''\<rparr>, \<lparr>CodeHash = [0x48]\<rparr>, ())
         else if contractAddr = [0x44]
         then Inr (\<lparr>IBCPortID = ''wasm.D''\<rparr>, \<lparr>CodeHash = [0x48]\<rparr>, ())
         else Inl (ErrOther ''contract not found'')),
      wasmer = example_wasmer,
      queryPlugins = (),
      messenger = \<lparr>Dispatch = (\<lambda>ctx contractAddr port msgs.
         if 13 \<in> set msgs then Some (ErrOther ''dispatch failed'') else None)\<rparr>\<rparr>"

definition example_ctx :: sdk_context where
  "example_ctx = \<lparr>GasMeter = \<lparr>gas_limit = 100, gas_consumed = 5\<rparr>, EventManager = []\<rparr>"

text \<open>
  A message handler that answers as the one above for the contract at \<open>[0x44]\<close> under
  its port \<open>wasm.D\<close>, and fails for every other address or port.
\<close>

definition example_other_messenger :: "nat message_handler" where
  "example_other_messenger =
     \<lparr>Dispatch = (\<lambda>ctx contractAddr port msgs.
         if contractAddr = [0x44] \<and> port = ''wasm.D''
         then (if 13 \<in> set msgs then Some (ErrOther ''dispatch failed'') else None)
         else Some (ErrOther ''foreign dispatch''))\<rparr>"

text \<open>
  A keeper that resolves the address \<open>[0x44]\<close> as the one above and no other address,
  and whose VM has the same connect entry point, while each of its other entry points
  traps.
\<close>

definition example_other_keeper ::
  "(nat, nat, nat, nat, unit, acc_address, unit, unit) keeper" where
  "example_other_keeper =
     \<lparr>contractInstance = (\<lambda>ctx contractAddr.
         if contractAddr = [0x44]
         then Inr (\<lparr>IBCPortID = ''wasm.D''\<rparr>, \<lparr>CodeHash = [0x48]\<rparr>, ())
         else Inl (ErrOther ''unknown'')),
      wasmer =
        \<lparr>IBCChannelOpen = (\<lambda>codeHash env channel store api querier meter gas.
            (1, Some ''trap'')),
         IBCChannelConnect = example_basic,
         IBCChannelClose = (\<lambda>codeHash env channel store api querier meter gas.
            (None, 1, Some ''trap'')),
         IBCPacketReceive = (\<lambda>codeHash env packet store api querier meter gas.
            (None, 1, Some ''trap'')),
         IBCPacketAck = (\<lambda>codeHash env acknowledgement store api querier meter gas.
            (None, 1, Some ''trap'')),
         IBCPacketTimeout = (\<lambda>codeHash env packet store api querier meter gas.
            (None, 1, Some ''trap''))\<rparr>,
      queryPlugins = (),
      messenger = \<lparr>Dispatch = (\<lambda>ctx contractAddr port msgs.
         if 13 \<in> set msgs then Some (ErrOther ''dispatch failed'') else None)\<rparr>\<rparr>"

section \<open>Replies determine what the entry point returned\<close>

lemma open_reply_eq:
  "(case x of (g, e) \<Rightarrow> OpenReply g e) = (case y of (g, e) \<Rightarrow> OpenReply g e) \<Longrightarrow> x = y"
  by (cases x; cases y) simp

lemma basic_reply_eq:
  "(case x of (r, g, e) \<Rightarrow> BasicReply r g e) = (case y of (r, g, e) \<Rightarrow> BasicReply r g e)
   \<Longrightarrow> x = y"
  by (cases x; cases y) simp

lemma receive_reply_eq:
  "(case x of (r, g, e) \<Rightarrow> ReceiveReply r g e) = (case y of (r, g, e) \<Rightarrow> ReceiveReply r g e)
   \<Longrightarrow> x = y"
  by (cases x; cases y) simp

section \<open>Runs of the concrete keeper\<close>

lemmas handler_defs =
  handle_def OnOpenChannel_def OnConnectChannel_def OnCloseChannel_def
  OnRecvPacket_def OnAckPacket_def OnTimeoutPacket_def

lemmas effect_defs = consumeGas_def EmitEvents_def Wrap_def

lemmas example_defs =
  example_package_def example_keeper_def example_wasmer_def example_basic_def
  example_ctx_def

lemma run_connect_ok:
  "handle example_package example_keeper example_ctx [0x44] (ChannelConnect 5) =
     (\<lparr>GasMeter = \<lparr>gas_limit = 100, gas_consumed = 35\<rparr>,
       EventManager =
         [\<lparr>event_type = ''wasm'',
           event_attributes = [(''contract'', ''D''), (''action'', ''done'')]\<rparr>]\<rparr>,
      [CallContractInstance [0x44],
       CallVM EntryChannelConnect [0x48] 95
         (BasicReply (Some \<lparr>Messages = [5], Attributes = [(''action'', ''done'')]\<rparr>)
            30 None),
       CallConsumeGas 30,
       CallEmitEvents
         [\<lparr>event_type = ''wasm'',
           event_attributes = [(''contract'', ''D''), (''action'', ''done'')]\<rparr>],
       CallDispatch [0x44] ''wasm.D'' [5] None],
      Return None)"
  by (simp add: handler_defs effect_defs example_defs Let_def)


lemma run_open_trap:
  "OnOpenChannel example_package example_keeper example_ctx [0x43] 0 =
     (\<lparr>GasMeter = \<lparr>gas_limit = 100, gas_consumed = 45\<rparr>, EventManager = []\<rparr>,
      [CallContractInstance [0x43],
       CallVM EntryChannelOpen [0x48] 95 (OpenReply 40 (Some ''out of gas'')),
       CallConsumeGas 40],
      Return (Some (Wrapped ErrExecuteFailed ''out of gas'')))"
  by (simp add: handler_defs effect_defs example_defs Let_def)

lemma run_open_ok:
  "OnOpenChannel example_package example_keeper example_ctx [0x43] 3 =
     (\<lparr>GasMeter = \<lparr>gas_limit = 100, gas_consumed = 35\<rparr>, EventManager = []\<rparr>,
      [CallContractInstance [0x43],
       CallVM EntryChannelOpen [0x48] 95 (OpenReply 30 None),
       CallConsumeGas 30],
      Return None)"
  by (simp add: handler_defs effect_defs example_defs Let_def)

lemma run_ack_trap_direct:
  "OnAckPacket example_package example_keeper example_ctx [0x44] 0 =
     (\<lparr>GasMeter = \<lparr>gas_limit = 100, gas_consumed = 45\<rparr>, EventManager = []\<rparr>,
      [CallContractInstance [0x44],
       CallVM EntryPacketAck [0x48] 95 (BasicReply None 40 (Some ''out of gas'')),
       CallConsumeGas 40],
      Return (Some (Wrapped ErrExecuteFailed ''out of gas'')))"
  by (simp add: handler_defs effect_defs example_defs Let_def)

lemma resolve_C:
  "contractInstance example_keeper example_ctx [0x43]
     = Inr (\<lparr>IBCPortID = ''wasm.C''\<rparr>, \<lparr>CodeHash = [0x48]\<rparr>, ())"
  by (simp add: example_keeper_def)

lemma resolve_D:
  "contractInstance example_keeper example_ctx [0x44]
     = Inr (\<lparr>IBCPortID = ''wasm.D''\<rparr>, \<lparr>CodeHash = [0x48]\<rparr>, ())"
  by (simp add: example_keeper_def)

lemma resolve_unknown:
  "contractInstance example_keeper example_ctx [0x45] = Inl (ErrOther ''contract not found'')"
  by (simp add: example_keeper_def)

lemma invoke_receive_trap:
  "spec_invoke example_package example_keeper example_ctx [0x43] (PacketReceive 0)
     \<lparr>CodeHash = [0x48]\<rparr> () = ReceiveReply None 40 (Some ''out of gas'')"
  by (simp add: spec_invoke_def example_keeper_def example_wasmer_def Let_def)

lemma invoke_ack_trap:
  "spec_invoke example_package example_keeper example_ctx [0x44] (PacketAck 0)
     \<lparr>CodeHash = [0x48]\<rparr> () = BasicReply None 40 (Some ''out of gas'')"
  by (simp add: spec_invoke_def example_keeper_def example_wasmer_def example_basic_def
        Let_def)

lemma invoke_timeout_ok:
  "spec_invoke example_package example_keeper example_ctx [0x44] (PacketTimeout 13)
     \<lparr>CodeHash = [0x48]\<rparr> ()
     = BasicReply (Some \<lparr>Messages = [13], Attributes = [(''action'', ''done'')]\<rparr>) 30 None"
  by (simp add: spec_invoke_def example_keeper_def example_wasmer_def example_basic_def
        Let_def)

lemma invoke_close_over_budget:
  "spec_invoke example_package example_keeper example_ctx [0x43] (ChannelClose 99)
     \<lparr>CodeHash = [0x48]\<rparr> ()
     = BasicReply (Some \<lparr>Messages = [99], Attributes = [(''action'', ''done'')]\<rparr>) 200 None"
  by (simp add: spec_invoke_def example_keeper_def example_wasmer_def example_basic_def
        Let_def)

lemma dispatch_rejects_13:
  "Dispatch (messenger example_keeper) c a port [13] = Some (ErrOther ''dispatch failed'')"
  by (simp add: example_keeper_def)

lemma dispatch_accepts_other:
  "13 \<notin> set msgs \<Longrightarrow> Dispatch (messenger example_keeper) c a port msgs = None"
  by (simp add: example_keeper_def)

section \<open>Gas\<close>

text \<open>
  Claim C1 says that, for each of the six handlers and for either outcome of the VM call,
  the consumed-gas counter of the ledger grows by exactly the gas the VM reported, and
  that this amount never exceeds the budget computed before the call. The second part
  fails: no handler compares the reported gas with the budget. The close entry point of
  the concrete VM, called with the budget 95 as its limit, reports 200, and the handler
  charges 200.
\<close>

theorem gas_bound_counterexample:
  "gasForContract example_package example_ctx = 95
   \<and> spec_invoke example_package example_keeper example_ctx [0x43] (ChannelClose 99)
        \<lparr>CodeHash = [0x48]\<rparr> ()
       = BasicReply (Some \<lparr>Messages = [99], Attributes = [(''action'', ''done'')]\<rparr>) 200 None
   \<and> gas_consumed (GasMeter (fst (handle example_package example_keeper example_ctx [0x43]
        (ChannelClose 99)))) = gas_consumed (GasMeter example_ctx) + 200
   \<and> (95::nat) < 200"
  by (simp add: invoke_close_over_budget)
     (simp add: handler_defs effect_defs example_defs Let_def)

text \<open>
  Claim C1, amended. For each of the six handlers, when the contract resolves, whatever
  the entry point of the event returns on being called with the budget computed before
  the call as its gas limit (a response or an error), the handler leaves the gas meter
  as one \<open>consumeGas\<close> of the gas reported in that reply leaves it: the consumed-gas
  counter has grown by exactly that amount. Its first three calls are the resolution,
  the VM call with the budget as limit, and the charge of the reported gas.
\<close>

theorem gas_always_charged:
  assumes "contractInstance k ctx contractAddr = Inr (contractInfo, codeInfo, prefixStore)"
    and "spec_invoke p k ctx contractAddr ev codeInfo prefixStore = reply"
  shows "GasMeter (fst (handle p k ctx contractAddr ev))
           = GasMeter (consumeGas ctx (reply_gasUsed reply))
         \<and> gas_consumed (GasMeter (fst (handle p k ctx contractAddr ev)))
           = gas_consumed (GasMeter ctx) + reply_gasUsed reply
         \<and> take 3 (fst (snd (handle p k ctx contractAddr ev)))
           = [CallContractInstance contractAddr,
              CallVM (spec_entry_point ev) (CodeHash codeInfo) (gasForContract p ctx) reply,
              CallConsumeGas (reply_gasUsed reply)]"
  using assms
  by (cases ev)
     (auto simp: handler_defs effect_defs spec_invoke_def Let_def
           split: sum.splits prod.splits option.splits)

text \<open>
  The receive handler on a trapping contract: the VM reports 40 with its error, and the
  counter grows by 40.
\<close>

theorem gas_always_charged_witness:
  "gas_consumed (GasMeter (fst (handle example_package example_keeper example_ctx [0x43]
       (PacketReceive 0)))) = gas_consumed (GasMeter example_ctx) + 40"
  using gas_always_charged [OF resolve_C invoke_receive_trap]
  by (simp add: consumeGas_def)

section \<open>Failure of the VM call\<close>

text \<open>
  Claim C2. For every handler, when the contract resolves and the entry point of the
  event returns an execution error, the handler returns that error wrapped as
  \<open>ErrExecuteFailed\<close>, emits no event and dispatches no message: its calls are the
  resolution, the VM call and the gas charge, and the context it leaves is the one it
  got after the gas charge, with the event log as it was.
\<close>

theorem no_effects_on_failure:
  assumes "contractInstance k ctx contractAddr = Inr (contractInfo, codeInfo, prefixStore)"
    and "spec_invoke p k ctx contractAddr ev codeInfo prefixStore = reply"
    and "reply_execErr reply = Some e"
  shows "handle p k ctx contractAddr ev =
           (consumeGas ctx (reply_gasUsed reply),
            [CallContractInstance contractAddr,
             CallVM (spec_entry_point ev) (CodeHash codeInfo) (gasForContract p ctx) reply,
             CallConsumeGas (reply_gasUsed reply)],
            Return (Some (Wrap ErrExecuteFailed e)))
         \<and> EventManager (consumeGas ctx (reply_gasUsed reply)) = EventManager ctx"
  using assms
  by (cases ev)
     (auto simp: handler_defs effect_defs spec_invoke_def Let_def
           split: sum.splits prod.splits option.splits)

theorem no_effects_on_failure_witness:
  "handle example_package example_keeper example_ctx [0x44] (PacketAck 0)
     = (consumeGas example_ctx 40,
        [CallContractInstance [0x44],
         CallVM EntryPacketAck [0x48] (gasForContract example_package example_ctx)
           (BasicReply None 40 (Some ''out of gas'')),
         CallConsumeGas 40],
        Return (Some (Wrap ErrExecuteFailed ''out of gas'')))"
proof -
  have err: "reply_execErr (BasicReply None 40 (Some ''out of gas'') :: nat vm_reply)
      = Some ''out of gas''"
    by simp
  from no_effects_on_failure [OF resolve_D invoke_ack_trap err]
  show ?thesis
    by simp
qed

section \<open>Failure of the resolution\<close>

text \<open>
  Claim C3. For every handler, when the contract address does not resolve the handler
  returns the resolution error at once: the context is the one it got (no gas is charged,
  no event is emitted), and the resolution is its only call (no VM entry point is
  invoked, no message is dispatched).
\<close>

theorem resolution_precedes_metering:
  assumes "contractInstance k ctx contractAddr = Inl err"
  shows "handle p k ctx contractAddr ev
           = (ctx, [CallContractInstance contractAddr], Return (Some err))"
  using assms by (cases ev) (simp_all add: handler_defs)

theorem resolution_precedes_metering_witness:
  "handle example_package example_keeper example_ctx [0x45] (PacketReceive 7)
     = (example_ctx, [CallContractInstance [0x45]],
        Return (Some (ErrOther ''contract not found'')))"
proof -
  have unresolved: "contractInstance example_keeper example_ctx [0x45]
      = Inl (ErrOther ''contract not found'')"
    by (simp add: example_keeper_def)
  show ?thesis
    by (rule resolution_precedes_metering [OF unresolved])
qed

section \<open>The acknowledgement of a received packet\<close>

text \<open>
  Claim C4. When the contract resolves, the receive entry point of the VM, called as
  \<open>OnRecvPacket\<close> calls it, returns a response and no error, and the dispatch of the
  response's messages returns no error, \<open>OnRecvPacket\<close> returns the acknowledgement of
  that response as it is, with a \<open>nil\<close> error.
\<close>

theorem receive_returns_acknowledgement:
  assumes "contractInstance k ctx contractAddr = Inr (contractInfo, codeInfo, prefixStore)"
    and "IBCPacketReceive (wasmer k) (CodeHash codeInfo) (NewEnv p ctx contractAddr) packet
           prefixStore (cosmwasmAPI p) \<lparr>Ctx = ctx, Plugins = queryPlugins k\<rparr> (GasMeter ctx)
           (gasForContract p ctx) = (Some res, gasUsed, None)"
    and "Dispatch (messenger k)
           (EmitEvents (consumeGas ctx gasUsed) (ParseEvents p (Attributes res) contractAddr))
           contractAddr (IBCPortID contractInfo) (Messages res) = None"
  shows "snd (snd (OnRecvPacket p k ctx contractAddr packet))
           = Return (Acknowledgement res, None)"
  using assms
  by (auto simp: handler_defs effect_defs Let_def
           split: sum.splits prod.splits option.splits)

theorem receive_returns_acknowledgement_witness:
  "snd (snd (OnRecvPacket example_package example_keeper example_ctx [0x43] 7))
     = Return (Some [1], None)"
proof -
  let ?res = "\<lparr>Messages = [7::nat], Attributes = [(''action'', ''receive'')],
                Acknowledgement = Some [1]\<rparr>"
  have vm: "IBCPacketReceive (wasmer example_keeper) (CodeHash \<lparr>CodeHash = [0x48]\<rparr>)
        (NewEnv example_package example_ctx [0x43]) 7 () (cosmwasmAPI example_package)
        \<lparr>Ctx = example_ctx, Plugins = queryPlugins example_keeper\<rparr> (GasMeter example_ctx)
        (gasForContract example_package example_ctx) = (Some ?res, 30, None)"
    by (simp add: example_keeper_def example_wasmer_def)
  have disp: "Dispatch (messenger example_keeper)
        (EmitEvents (consumeGas example_ctx 30)
           (ParseEvents example_package (Attributes ?res) [0x43]))
        [0x43] (IBCPortID \<lparr>IBCPortID = ''wasm.C''\<rparr>) (Messages ?res) = None"
    by (simp add: dispatch_accepts_other)
  from receive_returns_acknowledgement [OF resolve_C vm disp]
  show ?thesis
    by simp
qed

section \<open>Dispatch of the follow-up messages\<close>

text \<open>
  Claim C5. A handler reaches the message handler only for the address it was called for
  and the IBC port of the contract info that the resolution of this address returned:
  replacing the message handler by any other that answers alike for this address and
  this port, whatever it answers for other addresses and ports, changes nothing of what
  the handler does. Every dispatch in the handler's calls names this address and this
  port, and its answer is what the message handler returns for them and is what the
  handler returns.
\<close>

theorem scoped_dispatch:
  assumes "contractInstance k ctx contractAddr = Inr (contractInfo, codeInfo, prefixStore)"
    and "\<forall>c msgs. Dispatch m c contractAddr (IBCPortID contractInfo) msgs
           = Dispatch (messenger k) c contractAddr (IBCPortID contractInfo) msgs"
    and "handle p k ctx contractAddr ev = (ctx', tr, out)"
  shows "handle p (k\<lparr>messenger := m\<rparr>) ctx contractAddr ev = (ctx', tr, out)
         \<and> (CallDispatch a port msgs r \<in> set tr \<longrightarrow>
               a = contractAddr \<and> port = IBCPortID contractInfo
               \<and> r = Dispatch (messenger k) ctx' contractAddr (IBCPortID contractInfo) msgs
               \<and> out = Return r)"
  using assms
  by (cases ev)
     (auto simp: handler_defs effect_defs spec_invoke_def Let_def
           split: sum.splits prod.splits option.splits)

text \<open>
  The contract at \<open>[0x44]\<close> under a message handler that fails for every address and
  port but \<open>[0x44]\<close> and \<open>wasm.D\<close>: the connect handler does what it did.
\<close>

theorem scoped_dispatch_witness:
  "handle example_package (example_keeper\<lparr>messenger := example_other_messenger\<rparr>)
       example_ctx [0x44] (ChannelConnect 5)
     = handle example_package example_keeper example_ctx [0x44] (ChannelConnect 5)
   \<and> snd (snd (handle example_package example_keeper example_ctx [0x44] (ChannelConnect 5)))
     = Return None"
proof -
  let ?ev = "\<lparr>event_type = ''wasm'',
               event_attributes = [(''contract'', ''D''), (''action'', ''done'')]\<rparr>"
  have agree: "\<forall>c msgs.
      Dispatch example_other_messenger c [0x44] (IBCPortID \<lparr>IBCPortID = ''wasm.D''\<rparr>) msgs
        = Dispatch (messenger example_keeper) c [0x44] (IBCPortID \<lparr>IBCPortID = ''wasm.D''\<rparr>)
            msgs"
    by (simp add: example_other_messenger_def example_keeper_def)
  have disp: "CallDispatch [0x44] ''wasm.D'' [5] None
      \<in> set [CallContractInstance [0x44],
              CallVM EntryChannelConnect [0x48] 95
                (BasicReply (Some \<lparr>Messages = [5::nat], Attributes = [(''action'', ''done'')]\<rparr>)
                   30 None),
              CallConsumeGas 30, CallEmitEvents [?ev],
              CallDispatch [0x44] ''wasm.D'' [5] None]"
    by simp
  from scoped_dispatch [OF resolve_D agree run_connect_ok,
      where a = "[0x44]" and port = "''wasm.D''" and msgs = "[5]" and r = None]
    disp
  show ?thesis
    by (simp add: run_connect_ok)
qed

section \<open>The channel-open handler\<close>

text \<open>
  Claim C6. \<open>OnOpenChannel\<close> emits no event and dispatches no message, whatever the
  VM answers: the event log of the context it leaves is the one it got, none of its
  calls is an emission or a dispatch, and it does the same under any message handler.
\<close>

theorem open_has_no_side_channel:
  assumes "OnOpenChannel p k ctx contractAddr channel = (ctx', tr, out)"
  shows "EventManager ctx' = EventManager ctx
         \<and> filter (\<lambda>c. is_emit c \<or> is_dispatch c) tr = []
         \<and> OnOpenChannel p (k\<lparr>messenger := m\<rparr>) ctx contractAddr channel = (ctx', tr, out)"
  using assms
  by (auto simp: handler_defs effect_defs Let_def
           split: sum.splits prod.splits option.splits)

theorem open_has_no_side_channel_witness:
  "OnOpenChannel example_package example_keeper example_ctx [0x43] 3
     = (\<lparr>GasMeter = \<lparr>gas_limit = 100, gas_consumed = 35\<rparr>, EventManager = []\<rparr>,
        [CallContractInstance [0x43],
         CallVM EntryChannelOpen [0x48] 95 (OpenReply 30 None),
         CallConsumeGas 30],
        Return None)
   \<and> EventManager example_ctx = []
   \<and> OnOpenChannel example_package (example_keeper\<lparr>messenger := example_other_messenger\<rparr>)
        example_ctx [0x43] 3
     = (\<lparr>GasMeter = \<lparr>gas_limit = 100, gas_consumed = 35\<rparr>, EventManager = []\<rparr>,
        [CallContractInstance [0x43],
         CallVM EntryChannelOpen [0x48] 95 (OpenReply 30 None),
         CallConsumeGas 30],
        Return None)"
  using open_has_no_side_channel [OF run_open_ok, where m = example_other_messenger]
  by (simp add: run_open_ok)

section \<open>Events before dispatch\<close>

text \<open>
  Claim C7. When the contract resolves and the entry point of the event returns a
  response and no error, the handler charges the gas, emits the events that
  \<open>ParseEvents\<close> makes of the response's attributes and the contract address, and only
  then dispatches the response's messages, on the context that holds these events, for
  the contract address and its port. What the dispatch returns is what the handler
  returns, an error included, and the events stay in the event log of the context the
  handler leaves.
\<close>

theorem events_before_dispatch:
  assumes "contractInstance k ctx contractAddr = Inr (contractInfo, codeInfo, prefixStore)"
    and "spec_invoke p k ctx contractAddr ev codeInfo prefixStore = reply"
    and "reply_execErr reply = None"
    and "reply_response reply = Some res"
    and "events = ParseEvents p (Attributes res) contractAddr"
    and "r = Dispatch (messenger k) (EmitEvents (consumeGas ctx (reply_gasUsed reply)) events)
               contractAddr (IBCPortID contractInfo) (Messages res)"
  shows "handle p k ctx contractAddr ev =
           (EmitEvents (consumeGas ctx (reply_gasUsed reply)) events,
            [CallContractInstance contractAddr,
             CallVM (spec_entry_point ev) (CodeHash codeInfo) (gasForContract p ctx) reply,
             CallConsumeGas (reply_gasUsed reply),
             CallEmitEvents events,
             CallDispatch contractAddr (IBCPortID contractInfo) (Messages res) r],
            Return r)
         \<and> EventManager (EmitEvents (consumeGas ctx (reply_gasUsed reply)) events)
             = EventManager ctx @ events"
  using assms
  by (cases ev)
     (auto simp: handler_defs effect_defs spec_invoke_def Let_def
           split: sum.splits prod.splits option.splits)

text \<open>
  A timeout whose follow-up message is rejected: the handler returns the dispatch error,
  and the event is in the log.
\<close>

theorem events_before_dispatch_witness:
  "snd (snd (handle example_package example_keeper example_ctx [0x44] (PacketTimeout 13)))
     = Return (Some (ErrOther ''dispatch failed''))
   \<and> EventManager (fst (handle example_package example_keeper example_ctx [0x44]
        (PacketTimeout 13)))
     = EventManager example_ctx @ ParseEvents example_package [(''action'', ''done'')] [0x44]"
proof -
  let ?res = "\<lparr>Messages = [13::nat], Attributes = [(''action'', ''done'')]\<rparr>"
  have ok: "reply_execErr (BasicReply (Some ?res) 30 None) = None"
    by simp
  have resp: "reply_response (BasicReply (Some ?res) 30 None) = Some ?res"
    by simp
  from events_before_dispatch [OF resolve_D invoke_timeout_ok ok resp refl refl]
  show ?thesis
    by (simp add: dispatch_rejects_13)
qed

section \<open>The errors a handler returns\<close>

text \<open>
  Claim C8 says that a VM error comes back wrapped as the execution-failure kind with the
  VM's message, and that every error a handler returns is annotated with the contract
  address and the event kind. The second part fails: the channel-open handler for the
  contract at \<open>[0x43]\<close> and the acknowledgement handler for the contract at \<open>[0x44]\<close>
  return the very same error value when the VM reports "out of gas" to both, so the error
  tells neither the address nor the event.
\<close>

theorem error_annotation_counterexample:
  "snd (snd (OnOpenChannel example_package example_keeper example_ctx [0x43] 0))
     = Return (Some (Wrapped ErrExecuteFailed ''out of gas''))
   \<and> snd (snd (OnAckPacket example_package example_keeper example_ctx [0x44] 0))
     = Return (Some (Wrapped ErrExecuteFailed ''out of gas''))
   \<and> [0x43 :: 8 word] \<noteq> [0x44]
   \<and> EntryChannelOpen \<noteq> EntryPacketAck"
  by (simp add: run_open_trap run_ack_trap_direct)

text \<open>
  Claim C8, amended. For every handler: a resolution error is returned as the resolution
  gave it; an error of the entry point of the event is returned as \<open>ErrExecuteFailed\<close>
  wrapped with the VM's message and nothing else; and after a successful VM call the
  handler returns what the message handler returns, its error as it is. Neither the
  contract address nor the event kind is added to any of them.
\<close>

theorem errors_surface_unannotated:
  assumes "out = snd (snd (handle p k ctx contractAddr ev))"
  shows "(contractInstance k ctx contractAddr = Inl err \<longrightarrow> out = Return (Some err))
         \<and> (contractInstance k ctx contractAddr = Inr (contractInfo, codeInfo, prefixStore)
              \<and> reply_execErr (spec_invoke p k ctx contractAddr ev codeInfo prefixStore) = Some m
              \<longrightarrow> out = Return (Some (Wrapped ErrExecuteFailed m)))
         \<and> (contractInstance k ctx contractAddr = Inr (contractInfo, codeInfo, prefixStore)
              \<and> reply_execErr (spec_invoke p k ctx contractAddr ev codeInfo prefixStore) = None
              \<and> reply_response (spec_invoke p k ctx contractAddr ev codeInfo prefixStore)
                  = Some res
              \<longrightarrow> out = Return (Dispatch (messenger k)
                      (EmitEvents
                         (consumeGas ctx
                            (reply_gasUsed
                               (spec_invoke p k ctx contractAddr ev codeInfo prefixStore)))
                         (ParseEvents p (Attributes res) contractAddr))
                      contractAddr (IBCPortID contractInfo) (Messages res)))"
  using assms
  by (cases ev)
     (auto simp: handler_defs effect_defs spec_invoke_def Let_def
           split: sum.splits prod.splits option.splits)

text \<open>
  The three errors of the concrete keeper: an address that does not resolve, a trapping
  contract, a rejected follow-up message.
\<close>

theorem errors_surface_unannotated_witness:
  "snd (snd (handle example_package example_keeper example_ctx [0x45] (ChannelClose 7)))
     = Return (Some (ErrOther ''contract not found''))
   \<and> snd (snd (handle example_package example_keeper example_ctx [0x43] (PacketReceive 0)))
     = Return (Some (Wrapped ErrExecuteFailed ''out of gas''))
   \<and> snd (snd (handle example_package example_keeper example_ctx [0x44] (PacketTimeout 13)))
     = Return (Some (ErrOther ''dispatch failed''))"
proof -
  have unresolved:
    "snd (snd (handle example_package example_keeper example_ctx [0x45] (ChannelClose 7)))
       = Return (Some (ErrOther ''contract not found''))"
    using errors_surface_unannotated [OF refl,
        of example_keeper example_ctx "[0x45]" "ErrOther ''contract not found''"
           example_package "ChannelClose 7"]
      resolve_unknown
    by simp
  have trap:
    "snd (snd (handle example_package example_keeper example_ctx [0x43] (PacketReceive 0)))
       = Return (Some (Wrapped ErrExecuteFailed ''out of gas''))"
    using errors_surface_unannotated [OF refl,
        where k = example_keeper and ctx = example_ctx and contractAddr = "[0x43]"
          and p = example_package and ev = "PacketReceive 0"
          and contractInfo = "\<lparr>IBCPortID = ''wasm.C''\<rparr>" and codeInfo = "\<lparr>CodeHash = [0x48]\<rparr>"
          and prefixStore = "()" and m = "''out of gas''"]
      resolve_C invoke_receive_trap
    by simp
  have rejected:
    "snd (snd (handle example_package example_keeper example_ctx [0x44] (PacketTimeout 13)))
       = Return (Some (ErrOther ''dispatch failed''))"
    using errors_surface_unannotated [OF refl,
        where k = example_keeper and ctx = example_ctx and contractAddr = "[0x44]"
          and p = example_package and ev = "PacketTimeout 13"
          and contractInfo = "\<lparr>IBCPortID = ''wasm.D''\<rparr>" and codeInfo = "\<lparr>CodeHash = [0x48]\<rparr>"
          and prefixStore = "()"
          and res = "\<lparr>Messages = [13], Attributes = [(''action'', ''done'')]\<rparr>"]
      resolve_D invoke_timeout_ok
    by (simp add: dispatch_rejects_13)
  from unresolved trap rejected show ?thesis
    by simp
qed

section \<open>One resolution, one entry point\<close>

text \<open>
  Claim C9. A handler call resolves one contract, the one at the address it was called
  for, and calls one entry point of the VM, the one that the spec's table gives for the
  event. What the handler does is the same under any keeper that resolves this address
  alike, whatever it does for other addresses, and whose entry point for this event
  answers this call alike, whatever its other entry points do. Its calls hold exactly
  one resolution, of this address; no VM call when the resolution fails; and, when it
  succeeds, exactly one VM call: the entry point of the event, with the code hash of
  the resolved contract, the budget computed on the context, and the reply that this
  entry point returns.
\<close>

theorem one_resolution_one_entry_point:
  assumes "contractInstance k' ctx contractAddr = contractInstance k ctx contractAddr"
    and "queryPlugins k' = queryPlugins k"
    and "messenger k' = messenger k"
    and "\<forall>codeInfo prefixStore.
           spec_invoke p k' ctx contractAddr ev codeInfo prefixStore
             = spec_invoke p k ctx contractAddr ev codeInfo prefixStore"
    and "handle p k ctx contractAddr ev = (ctx', tr, out)"
  shows "handle p k' ctx contractAddr ev = (ctx', tr, out)
         \<and> filter is_resolution tr = [CallContractInstance contractAddr]
         \<and> (case contractInstance k ctx contractAddr of
               Inl err \<Rightarrow> filter is_vm_call tr = []
             | Inr (contractInfo, codeInfo, prefixStore) \<Rightarrow>
                 filter is_vm_call tr =
                   [CallVM (spec_entry_point ev) (CodeHash codeInfo) (gasForContract p ctx)
                      (spec_invoke p k ctx contractAddr ev codeInfo prefixStore)])"
proof (cases "contractInstance k ctx contractAddr")
  case (Inl err)
  with assms show ?thesis
    by (cases ev) (auto simp: handler_defs)
next
  case (Inr inst)
  obtain contractInfo codeInfo prefixStore
    where inst: "inst = (contractInfo, codeInfo, prefixStore)"
    by (cases inst) auto
  have same: "spec_invoke p k' ctx contractAddr ev codeInfo prefixStore
      = spec_invoke p k ctx contractAddr ev codeInfo prefixStore"
    using assms(4) by blast
  show ?thesis
  proof (cases ev)
    case (ChannelOpen channel)
    with same assms(2) have "IBCChannelOpen (wasmer k') (CodeHash codeInfo)
        (NewEnv p ctx contractAddr) channel prefixStore (cosmwasmAPI p)
        \<lparr>Ctx = ctx, Plugins = queryPlugins k\<rparr> (GasMeter ctx) (gasForContract p ctx)
      = IBCChannelOpen (wasmer k) (CodeHash codeInfo)
        (NewEnv p ctx contractAddr) channel prefixStore (cosmwasmAPI p)
        \<lparr>Ctx = ctx, Plugins = queryPlugins k\<rparr> (GasMeter ctx) (gasForContract p ctx)"
      by (auto simp: spec_invoke_def Let_def dest: open_reply_eq)
    with ChannelOpen Inr inst assms(1,2,3,5) show ?thesis
      by (auto simp: handler_defs effect_defs spec_invoke_def Let_def
               split: prod.splits option.splits)
  next
    case (ChannelConnect channel)
    with same assms(2) have "IBCChannelConnect (wasmer k') (CodeHash codeInfo)
        (NewEnv p ctx contractAddr) channel prefixStore (cosmwasmAPI p)
        \<lparr>Ctx = ctx, Plugins = queryPlugins k\<rparr> (GasMeter ctx) (gasForContract p ctx)
      = IBCChannelConnect (wasmer k) (CodeHash codeInfo)
        (NewEnv p ctx contractAddr) channel prefixStore (cosmwasmAPI p)
        \<lparr>Ctx = ctx, Plugins = queryPlugins k\<rparr> (GasMeter ctx) (gasForContract p ctx)"
      by (auto simp: spec_invoke_def Let_def dest: basic_reply_eq)
    with ChannelConnect Inr inst assms(1,2,3,5) show ?thesis
      by (auto simp: handler_defs effect_defs spec_invoke_def Let_def
               split: prod.splits option.splits)
  next
    case (ChannelClose channel)
    with same assms(2) have "IBCChannelClose (wasmer k') (CodeHash codeInfo)
        (NewEnv p ctx contractAddr) channel prefixStore (cosmwasmAPI p)
        \<lparr>Ctx = ctx, Plugins = queryPlugins k\<rparr> (GasMeter ctx) (gasForContract p ctx)
      = IBCChannelClose (wasmer k) (CodeHash codeInfo)
        (NewEnv p ctx contractAddr) channel prefixStore (cosmwasmAPI p)
        \<lparr>Ctx = ctx, Plugins = queryPlugins k\<rparr> (GasMeter ctx) (gasForContract p ctx)"
      by (auto simp: spec_invoke_def Let_def dest: basic_reply_eq)
    with ChannelClose Inr inst assms(1,2,3,5) show ?thesis
      by (auto simp: handler_defs effect_defs spec_invoke_def Let_def
               split: prod.splits option.splits)
  next
    case (PacketReceive packet)
    with same assms(2) have "IBCPacketReceive (wasmer k') (CodeHash codeInfo)
        (NewEnv p ctx contractAddr) packet prefixStore (cosmwasmAPI p)
        \<lparr>Ctx = ctx, Plugins = queryPlugins k\<rparr> (GasMeter ctx) (gasForContract p ctx)
      = IBCPacketReceive (wasmer k) (CodeHash codeInfo)
        (NewEnv p ctx contractAddr) packet prefixStore (cosmwasmAPI p)
        \<lparr>Ctx = ctx, Plugins = queryPlugins k\<rparr> (GasMeter ctx) (gasForContract p ctx)"
      by (auto simp: spec_invoke_def Let_def dest: receive_reply_eq)
    with PacketReceive Inr inst assms(1,2,3,5) show ?thesis
      by (auto simp: handler_defs effect_defs spec_invoke_def Let_def
               split: prod.splits option.splits)
  next
    case (PacketAck acknowledgement)
    with same assms(2) have "IBCPacketAck (wasmer k') (CodeHash codeInfo)
        (NewEnv p ctx contractAddr) acknowledgement prefixStore (cosmwasmAPI p)
        \<lparr>Ctx = ctx, Plugins = queryPlugins k\<rparr> (GasMeter ctx) (gasForContract p ctx)
      = IBCPacketAck (wasmer k) (CodeHash codeInfo)
        (NewEnv p ctx contractAddr) acknowledgement prefixStore (cosmwasmAPI p)
        \<lparr>Ctx = ctx, Plugins = queryPlugins k\<rparr> (GasMeter ctx) (gasForContract p ctx)"
      by (auto simp: spec_invoke_def Let_def dest: basic_reply_eq)
    with PacketAck Inr inst assms(1,2,3,5) show ?thesis
      by (auto simp: handler_defs effect_defs spec_invoke_def Let_def
               split: prod.splits option.splits)
  next
    case (PacketTimeout packet)
    with same assms(2) have "IBCPacketTimeout (wasmer k') (CodeHash codeInfo)
        (NewEnv p ctx contractAddr) packet prefixStore (cosmwasmAPI p)
        \<lparr>Ctx = ctx, Plugins = queryPlugins k\<rparr> (GasMeter ctx) (gasForContract p ctx)
      = IBCPacketTimeout (wasmer k) (CodeHash codeInfo)
        (NewEnv p ctx contractAddr) packet prefixStore (cosmwasmAPI p)
        \<lparr>Ctx = ctx, Plugins = queryPlugins k\<rparr> (GasMeter ctx) (gasForContract p ctx)"
      by (auto simp: spec_invoke_def Let_def dest: basic_reply_eq)
    with PacketTimeout Inr inst assms(1,2,3,5) show ?thesis
      by (auto simp: handler_defs effect_defs spec_invoke_def Let_def
               split: prod.splits option.splits)
  qed
qed

text \<open>
  The connect handler for the contract at \<open>[0x44]\<close> under a keeper that knows no other
  contract and whose other entry points trap.
\<close>

theorem one_resolution_one_entry_point_witness:
  "handle example_package example_other_keeper example_ctx [0x44] (ChannelConnect 5)
     = handle example_package example_keeper example_ctx [0x44] (ChannelConnect 5)
   \<and> filter is_vm_call
       (fst (snd (handle example_package example_keeper example_ctx [0x44] (ChannelConnect 5))))
     = [CallVM EntryChannelConnect [0x48] 95
          (BasicReply (Some \<lparr>Messages = [5], Attributes = [(''action'', ''done'')]\<rparr>)
             30 None)]"
proof -
  have res: "contractInstance example_other_keeper example_ctx [0x44]
      = contractInstance example_keeper example_ctx [0x44]"
    by (simp add: example_other_keeper_def example_keeper_def)
  have plugins: "queryPlugins example_other_keeper = queryPlugins example_keeper"
    by simp
  have msgr: "messenger example_other_keeper = messenger example_keeper"
    by (simp add: example_other_keeper_def example_keeper_def)
  have vm: "\<forall>codeInfo prefixStore.
      spec_invoke example_package example_other_keeper example_ctx [0x44] (ChannelConnect 5)
          codeInfo prefixStore
        = spec_invoke example_package example_keeper example_ctx [0x44] (ChannelConnect 5)
            codeInfo prefixStore"
    by (simp add: spec_invoke_def example_other_keeper_def example_keeper_def
          example_wasmer_def Let_def)
  from one_resolution_one_entry_point [OF res plugins msgr vm run_connect_ok]
  show ?thesis
    by (simp add: run_connect_ok)
qed

section \<open>The bytes of a failed receive\<close>



end
